theory Spec2Isabelle
  imports Complex_Main "HOL-Library.Sublist"
begin

section \<open>Bottom effect correction factors of PyFMRheo\<close>

text \<open>
  A model of \<^verbatim>\<open>src/pyfmrheo/models/correction_factors.py\<close>: six functions that map
  a sample height, a sequence of indentation depths, an indenter geometry tag and a tip
  parameter to a sequence of correction coefficients.

  Numbers. The callers pass Python floats; the module mixes Python float arithmetic with
  numpy functions (\<^verbatim>\<open>np.sqrt\<close>, \<^verbatim>\<open>np.tan\<close>), whose results are
  \<^verbatim>\<open>np.float64\<close> scalars. Both are IEEE 754 binary64 values and both are modelled by
  the type \<open>npfloat\<close>: a finite value, one of the two infinities, or nan. The two kinds
  of arithmetic differ in what they raise: Python float division by zero raises
  \<^verbatim>\<open>ZeroDivisionError\<close> and a Python float power that overflows raises
  \<^verbatim>\<open>OverflowError\<close>, while numpy returns an infinity or nan (with a warning, which is
  not an exception; numpy's error state is the default one), and \<^verbatim>\<open>np.sqrt\<close> of a
  negative number returns nan.

  The range of binary64 is modelled: an operation whose exact result reaches the overflow
  threshold gives an infinity (or raises, for a Python power), and one whose exact result
  is at most \<open>1 / 2 ^ 1075\<close> in magnitude gives zero. Inside the range the arithmetic is
  exact: the rounding to 53 bits is not modelled, a literal such as \<^verbatim>\<open>1.133\<close> is the
  rational it denotes, and \<^verbatim>\<open>np.pi\<close> is \<open>\<pi>\<close>. The sign of a zero is not modelled
  either: a zero divisor gives the infinity of the sign of the dividend, as a positive zero
  does. The divisors of the module are \<open>pi ^ 2\<close>, \<open>h\<close> and its powers, where \<open>h > 0\<close>, and, in the
  Kontomaris terms, \<open>R\<close>, its powers and its root; a power of a positive number that
  underflows is a positive zero, and for \<open>R \<le> 0\<close> the factor \<^verbatim>\<open>np.sqrt(R)\<close> of every
  Kontomaris term is zero or nan, so that the coefficient is nan whatever the sign of an
  infinity. The sample height, the tip parameter and the float elements of the indentation
  sequence are finite floats, given as reals.
\<close>

subsection \<open>Values and exceptions\<close>

datatype npfloat = Fin real | PInf | NInf | NaN

text \<open>
  An element of the indentation sequence is a float, or it is malformed: \<open>PyNone\<close>
  stands for an element that is no number, on which arithmetic raises
  \<^verbatim>\<open>TypeError\<close>.
\<close>

datatype pyval = PyFloat real | PyNone

datatype exn = Exception string | TypeError | IndexError | ZeroDivisionError | OverflowError

definition bind_exn :: "exn + 'a \<Rightarrow> ('a \<Rightarrow> exn + 'b) \<Rightarrow> exn + 'b" where
  "bind_exn r f = (case r of Inl e \<Rightarrow> Inl e | Inr v \<Rightarrow> f v)"

text \<open>An element used as an operand of float arithmetic or as the argument of a numpy function.\<close>

fun operand :: "pyval \<Rightarrow> exn + npfloat" where
  "operand (PyFloat x) = Inr (Fin x)"
| "operand PyNone = Inl TypeError"

subsection \<open>binary64 arithmetic\<close>

text \<open>
  Round to nearest overflows from \<open>2 ^ 1024 - 2 ^ 970\<close> on, half an ulp above the
  largest finite value, and gives zero up to \<open>1 / 2 ^ 1075\<close>, half the smallest subnormal.
\<close>

definition overflow_threshold :: real where
  "overflow_threshold = 2 ^ 1024 - 2 ^ 970"

definition underflow_threshold :: real where
  "underflow_threshold = 1 / 2 ^ 1075"

text \<open>The binary64 result of an operation whose exact result is \<open>x\<close>.\<close>

definition fl64 :: "real \<Rightarrow> npfloat" where
  "fl64 x =
     (if overflow_threshold \<le> x then PInf
      else if x \<le> - overflow_threshold then NInf
      else if \<bar>x\<bar> \<le> underflow_threshold then Fin 0
      else Fin x)"

definition signed_inf :: "real \<Rightarrow> npfloat" where
  "signed_inf s = (if s > 0 then PInf else if s < 0 then NInf else NaN)"

fun sign_of :: "npfloat \<Rightarrow> real" where
  "sign_of (Fin x) = sgn x"
| "sign_of PInf = 1"
| "sign_of NInf = - 1"
| "sign_of NaN = 0"

text \<open>
  Addition, multiplication and negation never raise, in Python as in numpy: an overflow
  gives an infinity.
\<close>

fun f64_add :: "npfloat \<Rightarrow> npfloat \<Rightarrow> npfloat" where
  "f64_add (Fin x) (Fin y) = fl64 (x + y)"
| "f64_add NaN _ = NaN"
| "f64_add _ NaN = NaN"
| "f64_add PInf NInf = NaN"
| "f64_add NInf PInf = NaN"
| "f64_add PInf _ = PInf"
| "f64_add _ PInf = PInf"
| "f64_add NInf _ = NInf"
| "f64_add _ NInf = NInf"

fun f64_mul :: "npfloat \<Rightarrow> npfloat \<Rightarrow> npfloat" where
  "f64_mul (Fin x) (Fin y) = fl64 (x * y)"
| "f64_mul NaN _ = NaN"
| "f64_mul _ NaN = NaN"
| "f64_mul a b = signed_inf (sign_of a * sign_of b)"

fun f64_neg :: "npfloat \<Rightarrow> npfloat" where
  "f64_neg (Fin x) = Fin (- x)"
| "f64_neg PInf = NInf"
| "f64_neg NInf = PInf"
| "f64_neg NaN = NaN"

text \<open>
  numpy division: division by zero gives an infinity, or nan for \<open>0 / 0\<close>; it raises
  nothing.
\<close>

fun np_truediv :: "npfloat \<Rightarrow> npfloat \<Rightarrow> npfloat" where
  "np_truediv (Fin x) (Fin y) = (if y = 0 then signed_inf x else fl64 (x / y))"
| "np_truediv NaN _ = NaN"
| "np_truediv _ NaN = NaN"
| "np_truediv (Fin x) _ = Fin 0"
| "np_truediv a (Fin y) = signed_inf (sign_of a * (if y < 0 then - 1 else 1))"
| "np_truediv _ _ = NaN"

text \<open>numpy power with a positive integer exponent: an overflow gives an infinity.\<close>

fun np_power :: "npfloat \<Rightarrow> nat \<Rightarrow> npfloat" where
  "np_power (Fin x) n = fl64 (x ^ n)"
| "np_power a 0 = Fin 1"
| "np_power NaN n = NaN"
| "np_power PInf n = PInf"
| "np_power NInf n = (if even n then PInf else NInf)"

fun np_sqrt :: "npfloat \<Rightarrow> npfloat" where
  "np_sqrt (Fin x) = (if x < 0 then NaN else fl64 (sqrt x))"
| "np_sqrt PInf = PInf"
| "np_sqrt NInf = NaN"
| "np_sqrt NaN = NaN"

text \<open>\<^verbatim>\<open>np.tan\<close> is only ever applied to the half-opening angle, a finite float.\<close>

definition np_tan :: "real \<Rightarrow> npfloat" where
  "np_tan x = fl64 (tan x)"

text \<open>
  Python float division \<^verbatim>\<open>a / b\<close>: a zero divisor raises, whatever the dividend is;
  otherwise the result is that of binary64 division.
\<close>

definition py_truediv :: "npfloat \<Rightarrow> npfloat \<Rightarrow> exn + npfloat" where
  "py_truediv a b = (if b = Fin 0 then Inl ZeroDivisionError else Inr (np_truediv a b))"

text \<open>
  Python float power \<^verbatim>\<open>a ** n\<close> with a positive integer exponent: a finite base whose
  power overflows raises; an underflow gives zero and raises nothing; an infinite base or
  nan gives what binary64 gives.
\<close>

fun py_pow :: "npfloat \<Rightarrow> nat \<Rightarrow> exn + npfloat" where
  "py_pow (Fin x) n =
     (if overflow_threshold \<le> \<bar>x ^ n\<bar> then Inl OverflowError else Inr (fl64 (x ^ n)))"
| "py_pow a n = Inr (np_power a n)"

subsection \<open>The loop over the samples\<close>

text \<open>
  Every provider runs the same loop: the body of the \<^verbatim>\<open>try\<close> computes the
  coefficient of one sample, which is appended to \<^verbatim>\<open>coefficients_out\<close>; the handler
  \<^verbatim>\<open>except Exception\<close> prints the traceback and appends \<open>1.0\<close>. The state of the
  loop is the list built so far and the exceptions printed so far.
\<close>

type_synonym loop_state = "npfloat list \<times> exn list"

fun sample_loop :: "(pyval \<Rightarrow> exn + npfloat) \<Rightarrow> pyval list \<Rightarrow> loop_state \<Rightarrow> loop_state" where
  "sample_loop body [] st = st"
| "sample_loop body (d # ds) (coefficients_out, tracebacks) =
     (case body d of
        Inr coeff \<Rightarrow> sample_loop body ds (coefficients_out @ [coeff], tracebacks)
      | Inl e \<Rightarrow> sample_loop body ds (coefficients_out @ [Fin 1], tracebacks @ [e]))"

text \<open>
  What a call does: it returns the list or raises, and it has printed tracebacks.
\<close>

type_synonym outcome = "(exn + npfloat list) \<times> exn list"

abbreviation returned :: "outcome \<Rightarrow> exn + npfloat list" where
  "returned \<equiv> fst"

abbreviation printed :: "outcome \<Rightarrow> exn list" where
  "printed \<equiv> snd"

definition raise :: "exn \<Rightarrow> outcome" where
  "raise e = (Inl e, [])"

definition return_coefficients :: "loop_state \<Rightarrow> outcome" where
  "return_coefficients st = (Inr (fst st), snd st)"

subsection \<open>Dimitriadis et al. 2002, paraboloid\<close>

text \<open>
  Equation (12), sample bonded to the substrate: the body of the \<^verbatim>\<open>try\<close>.
  \<^verbatim>\<open>indentation[i] * R\<close> is a Python float product; everything after
  \<^verbatim>\<open>np.sqrt\<close> is numpy arithmetic and raises nothing.
\<close>

definition dimitriadis_bonded_coeff :: "real \<Rightarrow> real \<Rightarrow> pyval \<Rightarrow> exn + npfloat" where
  "dimitriadis_bonded_coeff h R d =
     (if h > 0 then
        bind_exn (operand d) (\<lambda>x.
          let X = np_truediv (np_sqrt (f64_mul x (Fin R))) (Fin h);
              o2 = f64_add (f64_mul (Fin 1.133) X) (f64_mul (Fin 1.283) (np_power X 2));
              o4 = f64_add (f64_mul (Fin 0.769) (np_power X 3))
                     (f64_mul (Fin 0.0975) (np_power X 4))
          in Inr (f64_add (f64_add (Fin 1) o2) o4))
      else Inr (Fin 1))"

definition bec_dimitriadis_paraboloid_bonded ::
  "real \<Rightarrow> pyval list \<Rightarrow> string \<Rightarrow> real \<Rightarrow> outcome" where
  "bec_dimitriadis_paraboloid_bonded h indentation ind_shape R =
     (if ind_shape \<noteq> ''paraboloid'' then
        raise (Exception (''The Dimitriadis paraboloid bonded BEC model is not suitable for the ''
          @ ind_shape @ '' geometry.''))
      else return_coefficients (sample_loop (dimitriadis_bonded_coeff h R) indentation ([], [])))"

text \<open>Equation (11), sample not bonded.\<close>

definition dimitriadis_not_bonded_coeff :: "real \<Rightarrow> real \<Rightarrow> pyval \<Rightarrow> exn + npfloat" where
  "dimitriadis_not_bonded_coeff h R d =
     (if h > 0 then
        bind_exn (operand d) (\<lambda>x.
          let X = np_truediv (np_sqrt (f64_mul x (Fin R))) (Fin h);
              o2 = f64_add (f64_mul (Fin 0.884) X) (f64_mul (Fin 0.781) (np_power X 2));
              o4 = f64_add (f64_mul (Fin 0.386) (np_power X 3))
                     (f64_mul (Fin 0.0048) (np_power X 4))
          in Inr (f64_add (f64_add (Fin 1) o2) o4))
      else Inr (Fin 1))"

definition bec_dimitriadis_paraboloid_not_bonded ::
  "real \<Rightarrow> pyval list \<Rightarrow> string \<Rightarrow> real \<Rightarrow> outcome" where
  "bec_dimitriadis_paraboloid_not_bonded h indentation ind_shape R =
     (if ind_shape \<noteq> ''paraboloid'' then
        raise (Exception (''The Dimitriadis paraboloid not bonded BEC model is not suitable for the ''
          @ ind_shape @ '' geometry.''))
      else return_coefficients (sample_loop (dimitriadis_not_bonded_coeff h R) indentation ([], [])))"

subsection \<open>Gavara et al. 2012, cone\<close>

text \<open>
  \<^verbatim>\<open>X = indentation[i] / h\<close> is a Python float division and \<^verbatim>\<open>X ** 2\<close> a Python
  float power, which raises when it overflows; \<^verbatim>\<open>tan_angle\<close> is a numpy result, so the
  products with it are numpy's. \<^verbatim>\<open>o1\<close> is computed before \<^verbatim>\<open>X ** 2\<close>.
\<close>

definition gavara_coeff :: "real \<Rightarrow> real \<Rightarrow> pyval \<Rightarrow> exn + npfloat" where
  "gavara_coeff h half_opening_angle d =
     (if h > 0 then
        bind_exn (operand d) (\<lambda>x.
        bind_exn (py_truediv x (Fin h)) (\<lambda>X.
          let tan_angle = np_tan half_opening_angle;
              o1 = f64_mul (f64_mul (Fin 1.7795)
                     (np_truediv (f64_mul (Fin 2) tan_angle) (Fin (pi ^ 2)))) X
          in bind_exn (py_pow X 2) (\<lambda>X2.
               let o2 = f64_mul (f64_mul (Fin (16.0 * 1.7795 ^ 2)) (np_power tan_angle 2)) X2
               in Inr (f64_add (f64_add (Fin 1) o1) o2))))
      else Inr (Fin 1))"

definition bec_gavara_cone :: "real \<Rightarrow> pyval list \<Rightarrow> string \<Rightarrow> real \<Rightarrow> outcome" where
  "bec_gavara_cone h indentation ind_shape half_opening_angle =
     (if ind_shape \<noteq> ''cone'' then
        raise (Exception (''The Gavara cone BEC model is not suitable for the ''
          @ ind_shape @ '' geometry.''))
      else return_coefficients (sample_loop (gavara_coeff h half_opening_angle) indentation ([], [])))"

subsection \<open>Managuli et al. 2018, cone\<close>

text \<open>
  \<^verbatim>\<open>C\<close> is a numpy result, computed before the element is touched;
  \<^verbatim>\<open>4 * C * indentation[i]\<close> is the first use of the element.
  \<^verbatim>\<open>indentation[i] ** 2\<close> and \<^verbatim>\<open>h ** 2\<close> are Python float powers; the division by
  \<^verbatim>\<open>h ** 2\<close> has a numpy dividend, so it is numpy's and a zero \<^verbatim>\<open>h ** 2\<close> raises
  nothing.
\<close>

definition managuli_coeff :: "real \<Rightarrow> real \<Rightarrow> pyval \<Rightarrow> exn + npfloat" where
  "managuli_coeff h half_opening_angle d =
     (if h > 0 then
        let C = np_truediv (f64_mul (Fin 1.7795) (np_tan half_opening_angle)) (Fin (pi ^ 2)) in
        bind_exn (operand d) (\<lambda>x.
          let o1 = np_truediv (f64_mul (f64_mul (Fin 4) C) x) (Fin h) in
          bind_exn (py_pow x 2) (\<lambda>x2.
          bind_exn (py_pow (Fin h) 2) (\<lambda>h2.
            let o2 = np_truediv (f64_mul (f64_mul (Fin 20) (np_power C 2)) x2) h2
            in Inr (f64_add (f64_add (Fin 1) o1) o2))))
      else Inr (Fin 1))"

definition bec_managuli_cone :: "real \<Rightarrow> pyval list \<Rightarrow> string \<Rightarrow> real \<Rightarrow> outcome" where
  "bec_managuli_cone h indentation ind_shape half_opening_angle =
     (if ind_shape \<noteq> ''cone'' then
        raise (Exception (''The Managuli cone BEC model is not suitable for the ''
          @ ind_shape @ '' geometry.''))
      else return_coefficients (sample_loop (managuli_coeff h half_opening_angle) indentation ([], [])))"

subsection \<open>Garcia and Garcia 2018: tables of term functions\<close>

text \<open>
  A term function takes \<^verbatim>\<open>(h, indentation, tip_parameter)\<close>. The powers of
  \<^verbatim>\<open>h\<close>, \<^verbatim>\<open>indentation\<close> and \<^verbatim>\<open>R\<close> are Python float powers. Where the dividend
  contains a numpy result (\<^verbatim>\<open>np.sqrt\<close>, \<^verbatim>\<open>np.tan\<close>), the division is numpy's;
  where it is built from Python floats only, the division is Python's and raises on a
  zero divisor. The operands are evaluated from left to right.
\<close>

type_synonym garcia_term = "real \<Rightarrow> pyval \<Rightarrow> real \<Rightarrow> exn + npfloat"

definition paraboloid_model_factors :: "garcia_term list" where
  "paraboloid_model_factors =
    [\<lambda>h indentation R. bind_exn (operand indentation) (\<lambda>x.
       Inr (np_truediv (f64_mul (Fin 1.133) (np_sqrt (f64_mul x (Fin R)))) (Fin h))),
     \<lambda>h indentation R. bind_exn (operand indentation) (\<lambda>x.
       bind_exn (py_pow (Fin h) 2) (\<lambda>h2.
         py_truediv (f64_mul (f64_mul (Fin 1.497) x) (Fin R)) h2)),
     \<lambda>h indentation R. bind_exn (operand indentation) (\<lambda>x.
       let numerator = f64_mul (f64_mul (f64_mul (Fin 1.469) x) (Fin R))
                         (np_sqrt (f64_mul x (Fin R)))
       in bind_exn (py_pow (Fin h) 3) (\<lambda>h3. Inr (np_truediv numerator h3))),
     \<lambda>h indentation R. bind_exn (operand indentation) (\<lambda>x.
       bind_exn (py_pow x 2) (\<lambda>x2.
       bind_exn (py_pow (Fin R) 2) (\<lambda>R2.
       bind_exn (py_pow (Fin h) 4) (\<lambda>h4.
         py_truediv (f64_mul (f64_mul (Fin 0.755) x2) R2) h4))))]"

definition conical_model_factors :: "garcia_term list" where
  "conical_model_factors =
    [\<lambda>h indentation half_opening_angle. bind_exn (operand indentation) (\<lambda>x.
       Inr (np_truediv (f64_mul (f64_mul (Fin 0.721) x) (np_tan half_opening_angle)) (Fin h))),
     \<lambda>h indentation half_opening_angle. bind_exn (operand indentation) (\<lambda>x.
       bind_exn (py_pow x 2) (\<lambda>x2.
       bind_exn (py_pow (Fin h) 2) (\<lambda>h2.
         Inr (np_truediv
           (f64_mul (f64_mul (Fin 0.650) x2) (np_power (np_tan half_opening_angle) 2)) h2)))),
     \<lambda>h indentation half_opening_angle. bind_exn (operand indentation) (\<lambda>x.
       bind_exn (py_pow x 3) (\<lambda>x3.
       bind_exn (py_pow (Fin h) 3) (\<lambda>h3.
         Inr (np_truediv
           (f64_mul (f64_mul (Fin 0.491) x3) (np_power (np_tan half_opening_angle) 3)) h3)))),
     \<lambda>h indentation half_opening_angle. bind_exn (operand indentation) (\<lambda>x.
       bind_exn (py_pow x 4) (\<lambda>x4.
       bind_exn (py_pow (Fin h) 4) (\<lambda>h4.
         Inr (np_truediv
           (f64_mul (f64_mul (Fin 0.225) x4) (np_power (np_tan half_opening_angle) 4)) h4))))]"

text \<open>The flat punch terms ignore the indentation and use Python floats only.\<close>

definition flat_punch_model_factors :: "garcia_term list" where
  "flat_punch_model_factors =
    [\<lambda>h _ R. py_truediv (f64_mul (Fin 1.133) (Fin R)) (Fin h),
     \<lambda>h _ R.
       bind_exn (py_pow (Fin R) 2) (\<lambda>R2.
       bind_exn (py_pow (Fin h) 2) (\<lambda>h2.
         py_truediv (f64_mul (Fin 1.283) R2) h2)),
     \<lambda>h _ R.
       bind_exn (py_pow (Fin R) 3) (\<lambda>R3.
       bind_exn (py_pow (Fin h) 3) (\<lambda>h3.
         py_truediv (f64_mul (Fin 0.598) R3) h3)),
     \<lambda>h _ R.
       bind_exn (py_pow (Fin R) 4) (\<lambda>R4.
       bind_exn (py_pow (Fin h) 4) (\<lambda>h4.
         py_truediv (f64_neg (f64_mul (Fin 0.291) R4)) h4))]"

definition garcia_garcia_factors :: "string \<rightharpoonup> garcia_term list" where
  "garcia_garcia_factors =
     [''paraboloid'' \<mapsto> paraboloid_model_factors,
      ''conical'' \<mapsto> conical_model_factors,
      ''flat_punch'' \<mapsto> flat_punch_model_factors]"

text \<open>
  \<^verbatim>\<open>for j in range(order): O = model_factors[j]; coeff += O(h, indentation[i], tip_parameter)\<close>,
  run over the indices \<open>js\<close> still to come. An index beyond the table raises
  \<^verbatim>\<open>IndexError\<close>.
\<close>

fun garcia_terms ::
  "garcia_term list \<Rightarrow> real \<Rightarrow> pyval \<Rightarrow> real \<Rightarrow> nat list \<Rightarrow> npfloat \<Rightarrow> exn + npfloat" where
  "garcia_terms model_factors h d tip_parameter [] coeff = Inr coeff"
| "garcia_terms model_factors h d tip_parameter (j # js) coeff =
     (if j < length model_factors then
        (case (model_factors ! j) h d tip_parameter of
           Inl e \<Rightarrow> Inl e
         | Inr t \<Rightarrow> garcia_terms model_factors h d tip_parameter js (f64_add coeff t))
      else Inl IndexError)"

definition garcia_coeff ::
  "garcia_term list \<Rightarrow> real \<Rightarrow> real \<Rightarrow> int \<Rightarrow> pyval \<Rightarrow> exn + npfloat" where
  "garcia_coeff model_factors h tip_parameter order d =
     (if h > 0 then garcia_terms model_factors h d tip_parameter [0..<nat order] (Fin 1)
      else Inr (Fin 1))"

text \<open>
  \<^verbatim>\<open>if not model_factors\<close> holds for a tag that is no key of the dictionary
  (\<^verbatim>\<open>get\<close> gives \<^verbatim>\<open>None\<close>) and would hold for an empty table.
\<close>

definition bec_garcia_garcia ::
  "real \<Rightarrow> pyval list \<Rightarrow> string \<Rightarrow> real \<Rightarrow> int \<Rightarrow> outcome" where
  "bec_garcia_garcia h indentation ind_shape tip_parameter order =
     (case garcia_garcia_factors ind_shape of
        None \<Rightarrow>
          raise (Exception (''The Garcia, Garcia BEC model is not suitable for the ''
            @ ind_shape @ '' geometry.''))
      | Some model_factors \<Rightarrow>
          if List.null model_factors then
            raise (Exception (''The Garcia, Garcia BEC model is not suitable for the ''
              @ ind_shape @ '' geometry.''))
          else return_coefficients
            (sample_loop (garcia_coeff model_factors h tip_parameter order) indentation ([], [])))"

subsection \<open>Kontomaris 2021: approximation to a spherical indenter\<close>

text \<open>
  A term function takes \<^verbatim>\<open>(indentation, R)\<close>; the first one ignores the indentation.
  Every term contains a numpy square root, so every division is numpy's; the powers of
  \<^verbatim>\<open>indentation\<close> and \<^verbatim>\<open>R\<close> are Python float powers.
\<close>

type_synonym kontomaris_term = "pyval \<Rightarrow> real \<Rightarrow> exn + npfloat"

definition kontomaris_model_factors :: "kontomaris_term list" where
  "kontomaris_model_factors =
    [\<lambda>_ R. Inr (np_truediv (Fin (2 / 3 * 1.0100000)) (np_sqrt (Fin R))),
     \<lambda>indentation R. bind_exn (operand indentation) (\<lambda>x.
       Inr (np_truediv (f64_mul (Fin (1 / 2 * - 0.0730300)) (np_sqrt x)) (Fin R))),
     \<lambda>indentation R. bind_exn (operand indentation) (\<lambda>x.
       let numerator = f64_mul (f64_mul (Fin (1 / 3 * - 0.1357000)) x) (np_sqrt x)
       in bind_exn (py_pow (Fin R) 2) (\<lambda>R2. Inr (np_truediv numerator R2))),
     \<lambda>indentation R. bind_exn (operand indentation) (\<lambda>x.
       bind_exn (py_pow x 2) (\<lambda>x2.
         let numerator = f64_mul (f64_mul (Fin (1 / 4 * 0.0359800)) x2) (np_sqrt x)
         in bind_exn (py_pow (Fin R) 3) (\<lambda>R3. Inr (np_truediv numerator R3)))),
     \<lambda>indentation R. bind_exn (operand indentation) (\<lambda>x.
       bind_exn (py_pow x 3) (\<lambda>x3.
         let numerator = f64_mul (f64_mul (Fin (1 / 5 * - 0.0040240)) x3) (np_sqrt x)
         in bind_exn (py_pow (Fin R) 4) (\<lambda>R4. Inr (np_truediv numerator R4)))),
     \<lambda>indentation R. bind_exn (operand indentation) (\<lambda>x.
       bind_exn (py_pow x 4) (\<lambda>x4.
         let numerator = f64_mul (f64_mul (Fin (1 / 6 * 0.0001653)) x4) (np_sqrt x)
         in bind_exn (py_pow (Fin R) 5) (\<lambda>R5. Inr (np_truediv numerator R5))))]"

text \<open>
  \<^verbatim>\<open>for j in range(order): O = model_factors[j]; coeff += 3/2 * np.sqrt(R) * O(indentation[i], R)\<close>.
\<close>

fun kontomaris_terms ::
  "kontomaris_term list \<Rightarrow> pyval \<Rightarrow> real \<Rightarrow> nat list \<Rightarrow> npfloat \<Rightarrow> exn + npfloat" where
  "kontomaris_terms model_factors d R [] coeff = Inr coeff"
| "kontomaris_terms model_factors d R (j # js) coeff =
     (if j < length model_factors then
        (case (model_factors ! j) d R of
           Inl e \<Rightarrow> Inl e
         | Inr t \<Rightarrow> kontomaris_terms model_factors d R js
             (f64_add coeff (f64_mul (f64_mul (Fin (3 / 2)) (np_sqrt (Fin R))) t)))
      else Inl IndexError)"

definition kontomaris_coeff :: "real \<Rightarrow> int \<Rightarrow> pyval \<Rightarrow> exn + npfloat" where
  "kontomaris_coeff R order d =
     kontomaris_terms kontomaris_model_factors d R [0..<nat order] (Fin 0)"

text \<open>The first parameter, written \<^verbatim>\<open>_\<close> in the source, is the sample height.\<close>

definition sphere_approx_kontomaris ::
  "real \<Rightarrow> pyval list \<Rightarrow> string \<Rightarrow> real \<Rightarrow> int \<Rightarrow> outcome" where
  "sphere_approx_kontomaris h indentation ind_shape R order =
     (if ind_shape \<noteq> ''paraboloid'' then
        raise (Exception ''The Kontomaris approximation is only suitable for the paraboloid geometry.'')
      else return_coefficients (sample_loop (kontomaris_coeff R order) indentation ([], [])))"

text \<open>The calls that leave \<^verbatim>\<open>order\<close> to its default.\<close>

definition bec_garcia_garcia_default :: "real \<Rightarrow> pyval list \<Rightarrow> string \<Rightarrow> real \<Rightarrow> outcome" where
  "bec_garcia_garcia_default h indentation ind_shape tip_parameter =
     bec_garcia_garcia h indentation ind_shape tip_parameter 4"

definition sphere_approx_kontomaris_default ::
  "real \<Rightarrow> pyval list \<Rightarrow> string \<Rightarrow> real \<Rightarrow> outcome" where
  "sphere_approx_kontomaris_default h indentation ind_shape R =
     sphere_approx_kontomaris h indentation ind_shape R 6"

section \<open>Notions used to state the properties\<close>

text \<open>
  The coefficient that the loop appends for a sample whose \<^verbatim>\<open>try\<close> body gives
  \<open>body d\<close>, and the exceptions that a run of the loop prints, in order.
\<close>

definition coeff_or_one :: "(pyval \<Rightarrow> exn + npfloat) \<Rightarrow> pyval \<Rightarrow> npfloat" where
  "coeff_or_one body d = (case body d of Inr coeff \<Rightarrow> coeff | Inl e \<Rightarrow> Fin 1)"

fun raised :: "(pyval \<Rightarrow> exn + npfloat) \<Rightarrow> pyval list \<Rightarrow> exn list" where
  "raised body [] = []"
| "raised body (d # ds) =
     (case body d of Inr coeff \<Rightarrow> raised body ds | Inl e \<Rightarrow> e # raised body ds)"

text \<open>
  The exception \<open>e\<close> of sample \<open>i\<close> is isolated in the outcome \<open>res\<close> of a call on
  \<open>ind\<close>, where \<open>single d\<close> is the outcome of the same call on the one sample \<open>d\<close>:
  the call returns a list as long as \<open>ind\<close>, whose entry \<open>i\<close> is \<open>1.0\<close>, the traceback
  of \<open>e\<close> was printed, and the entry of every sample is the coefficient that the call on
  that sample alone returns.
\<close>

definition isolated ::
  "outcome \<Rightarrow> (pyval \<Rightarrow> outcome) \<Rightarrow> pyval list \<Rightarrow> nat \<Rightarrow> exn \<Rightarrow> bool" where
  "isolated res single ind i e \<longleftrightarrow>
     (\<exists>out. returned res = Inr out \<and> length out = length ind \<and> out ! i = Fin 1 \<and>
        e \<in> set (printed res) \<and>
        (\<forall>k<length ind. returned (single (ind ! k)) = Inr [out ! k]))"

text \<open>
  The series of the bonded Dimitriadis model as the specification writes it, over the reals:
  \<open>1 + 1.133 X + 1.283 X\<^sup>2 + 0.769 X\<^sup>3 + 0.0975 X\<^sup>4\<close>.
\<close>

definition spec_dimitriadis_bonded_series :: "real \<Rightarrow> real" where
  "spec_dimitriadis_bonded_series X =
     1 + 1.133 * X + 1.283 * X ^ 2 + 0.769 * X ^ 3 + 0.0975 * X ^ 4"


section \<open>The range of binary64\<close>

lemma thresholds_pos: "0 < underflow_threshold" "0 < overflow_threshold"
  by (simp_all add: underflow_threshold_def overflow_threshold_def)

lemma thresholds_ordinary:
  "underflow_threshold < 1 / 2 ^ 500" "2 ^ 500 < overflow_threshold"
  by (simp_all add: underflow_threshold_def overflow_threshold_def)

lemma thresholds_order: "underflow_threshold < overflow_threshold"
  by (simp add: underflow_threshold_def overflow_threshold_def)

lemma fl64_zero [simp]: "fl64 0 = Fin 0"
  using thresholds_pos by (simp add: fl64_def)

lemma fl64_id:
  "underflow_threshold < \<bar>x\<bar> \<Longrightarrow> \<bar>x\<bar> < overflow_threshold \<Longrightarrow> fl64 x = Fin x"
  by (auto simp: fl64_def)

lemma fl64_ordinary: "1 / 2 ^ 500 \<le> \<bar>x\<bar> \<Longrightarrow> \<bar>x\<bar> \<le> 2 ^ 500 \<Longrightarrow> fl64 x = Fin x"
  using thresholds_ordinary by (intro fl64_id) linarith+


lemma fl64_underflow: "\<bar>x\<bar> \<le> underflow_threshold \<Longrightarrow> fl64 x = Fin 0"
  using thresholds_order by (auto simp: fl64_def)

lemma np_sqrt_negative: "x < - underflow_threshold \<Longrightarrow> np_sqrt (fl64 x) = NaN"
  using thresholds_pos by (auto simp: fl64_def)

section \<open>The loop and the tables\<close>

text \<open>The loop maps every sample to its coefficient or to \<open>1.0\<close>, and prints what was raised.\<close>

lemma sample_loop_eq:
  "sample_loop body ds (out, tb) = (out @ map (coeff_or_one body) ds, tb @ raised body ds)"
  by (induction ds arbitrary: out tb) (auto simp: coeff_or_one_def split: sum.splits)

lemma run_loop:
  "return_coefficients (sample_loop body ds ([], [])) =
     (Inr (map (coeff_or_one body) ds), raised body ds)"
  by (simp add: sample_loop_eq return_coefficients_def)

lemma raised_mem: "i < length ds \<Longrightarrow> body (ds ! i) = Inl e \<Longrightarrow> e \<in> set (raised body ds)"
proof (induction ds arbitrary: i)
  case Nil
  then show ?case by simp
next
  case (Cons d ds)
  show ?case
  proof (cases i)
    case 0
    with Cons.prems show ?thesis by simp
  next
    case (Suc k)
    with Cons.prems have "e \<in> set (raised body ds)"
      by (intro Cons.IH[of k]) simp_all
    then show ?thesis by (simp split: sum.splits)
  qed
qed

lemma raised_none: "\<forall>d\<in>set ds. \<exists>c. body d = Inr c \<Longrightarrow> raised body ds = []"
  by (induction ds) (auto split: sum.splits)

lemma raised_all:
  "\<forall>d\<in>set ds. \<exists>e. body d = Inl e \<Longrightarrow> length (raised body ds) = length ds"
  by (induction ds) (auto split: sum.splits)

lemma map_const: "\<forall>d\<in>set ds. f d = c \<Longrightarrow> map f ds = replicate (length ds) c"
  by (induction ds) auto

lemma loop_isolated:
  assumes "i < length ds" and "body (ds ! i) = Inl e"
  shows "isolated (return_coefficients (sample_loop body ds ([], [])))
           (\<lambda>d. return_coefficients (sample_loop body [d] ([], []))) ds i e"
  unfolding isolated_def run_loop using assms by (simp add: coeff_or_one_def raised_mem)

lemma loop_neutral:
  assumes "\<And>d. body d = Inr (Fin 1)"
  shows "return_coefficients (sample_loop body ds ([], [])) = (Inr (replicate (length ds) (Fin 1)), [])"
proof -
  have "map (coeff_or_one body) ds = replicate (length ds) (Fin 1)"
    by (rule map_const) (simp add: coeff_or_one_def assms)
  moreover have "raised body ds = []"
    by (rule raised_none) (simp add: assms)
  ultimately show ?thesis by (simp add: run_loop)
qed

text \<open>
  The dictionary of the Garcia model has three keys, each with a table of four terms.
\<close>

lemma garcia_lookup:
  "garcia_garcia_factors ''paraboloid'' = Some paraboloid_model_factors"
  "garcia_garcia_factors ''conical'' = Some conical_model_factors"
  "garcia_garcia_factors ''flat_punch'' = Some flat_punch_model_factors"
  by (simp_all add: garcia_garcia_factors_def)

lemma garcia_lookup_none:
  "s \<notin> {''paraboloid'', ''conical'', ''flat_punch''} \<Longrightarrow> garcia_garcia_factors s = None"
  by (simp add: garcia_garcia_factors_def)

lemma garcia_tables_length:
  "length paraboloid_model_factors = 4"
  "length conical_model_factors = 4"
  "length flat_punch_model_factors = 4"
  by (simp_all add: paraboloid_model_factors_def conical_model_factors_def
      flat_punch_model_factors_def)

lemma garcia_supported:
  assumes "s \<in> {''paraboloid'', ''conical'', ''flat_punch''}"
  obtains tbl where "garcia_garcia_factors s = Some tbl" and "length tbl = 4"
  using assms garcia_lookup garcia_tables_length by auto

lemma bec_garcia_garcia_loop:
  assumes "garcia_garcia_factors s = Some tbl" and "length tbl = 4"
  shows "bec_garcia_garcia h ind s p order =
     return_coefficients (sample_loop (garcia_coeff tbl h p order) ind ([], []))"
  using assms by (auto simp: bec_garcia_garcia_def)

lemma upt_numerals:
  "[0..<2] = [0, 1]" "[0..<3] = [0, 1, 2]" "[0..<4] = [0, 1, 2, 3]"
  "[0..<5] = [0, 1, 2, 3, 4]" "[0..<6] = [0, 1, 2, 3, 4, 5]"
  by (simp_all add: upt_rec)

text \<open>Powers of ordinary numbers neither overflow nor underflow.\<close>

lemma power_ordinary:
  fixes x :: real
  assumes "1 / 2 ^ 16 \<le> \<bar>x\<bar>" and "\<bar>x\<bar> \<le> 2 ^ 16" and "n \<le> 5"
  shows "1 / 2 ^ 80 \<le> \<bar>x ^ n\<bar>" and "\<bar>x ^ n\<bar> \<le> 2 ^ 80"
proof -
  have lo: "(1 / 2 ^ 16 :: real) ^ 5 = 1 / 2 ^ 80" and hi: "(2 ^ 16 :: real) ^ 5 = 2 ^ 80"
    by (simp_all add: power_divide)
  have "(1 / 2 ^ 16 :: real) ^ 5 \<le> (1 / 2 ^ 16) ^ n"
    using assms(3) by (intro power_decreasing) simp_all
  also have "\<dots> \<le> \<bar>x\<bar> ^ n"
    using assms(1) by (intro power_mono) simp_all
  finally have "1 / 2 ^ 80 \<le> \<bar>x\<bar> ^ n"
    unfolding lo .
  then show "1 / 2 ^ 80 \<le> \<bar>x ^ n\<bar>"
    unfolding power_abs .
  have "\<bar>x\<bar> ^ n \<le> (2 ^ 16) ^ n"
    using assms(2) by (intro power_mono) simp_all
  also have "\<dots> \<le> (2 ^ 16 :: real) ^ 5"
    using assms(3) by (intro power_increasing) simp_all
  finally have "\<bar>x\<bar> ^ n \<le> 2 ^ 80"
    unfolding hi .
  then show "\<bar>x ^ n\<bar> \<le> 2 ^ 80"
    unfolding power_abs .
qed

lemma py_pow_ordinary:
  assumes "1 / 2 ^ 16 \<le> \<bar>x\<bar>" and "\<bar>x\<bar> \<le> 2 ^ 16" and "n \<le> 5"
  shows "py_pow (Fin x) n = Inr (Fin (x ^ n))"
proof -
  note b = power_ordinary [OF assms]
  have lo: "1 / 2 ^ 500 \<le> \<bar>x ^ n\<bar>"
  proof -
    have "(1 / 2 ^ 500 :: real) \<le> 1 / 2 ^ 80" by simp
    with b(1) show ?thesis by linarith
  qed
  have hi: "\<bar>x ^ n\<bar> \<le> 2 ^ 500"
  proof -
    have "(2 ^ 80 :: real) \<le> 2 ^ 500" by simp
    with b(2) show ?thesis by linarith
  qed
  have "\<bar>x ^ n\<bar> < overflow_threshold"
    using hi thresholds_ordinary(2) by linarith
  moreover have "fl64 (x ^ n) = Fin (x ^ n)"
    using lo hi by (rule fl64_ordinary)
  ultimately show ?thesis by simp
qed


lemma fl64_one [simp]: "fl64 1 = Fin 1"
  using thresholds_ordinary by (intro fl64_ordinary) simp_all

lemma fl64_moderate: "1 / 10000 \<le> x \<Longrightarrow> x \<le> 10000 \<Longrightarrow> fl64 x = Fin x"
proof -
  assume a: "1 / 10000 \<le> x" "x \<le> 10000"
  have "(1 / 2 ^ 500 :: real) \<le> 1 / 10000" "(10000 :: real) \<le> 2 ^ 500"
    by simp_all
  with a show ?thesis by (intro fl64_ordinary) linarith+
qed









lemma py_pow_zero: "0 < n \<Longrightarrow> py_pow (Fin 0) n = Inr (Fin 0)"
  using thresholds_pos by (simp add: zero_power)

lemma f64_mul_zero [simp]: "f64_mul (Fin x) (Fin 0) = Fin 0" "f64_mul (Fin 0) (Fin x) = Fin 0"
  by simp_all

lemma np_truediv_zero: "y \<noteq> 0 \<Longrightarrow> np_truediv (Fin 0) (Fin y) = Fin 0"
  by simp

lemma np_sqrt_zero [simp]: "np_sqrt (Fin 0) = Fin 0"
  by simp

section \<open>Length of the result\<close>

text \<open>
  C1. Every provider, called with a geometry tag that passes its gate, returns a list of
  coefficients exactly as long as the indentation sequence, whatever the samples are
  (floats or malformed elements) and whatever fails for single samples. The gates of the
  Dimitriadis and Kontomaris providers pass \<^verbatim>\<open>"paraboloid"\<close> only, those of the
  Gavara and Managuli providers \<^verbatim>\<open>"cone"\<close> only; the gate of the Garcia provider
  passes the three keys of its dictionary.
\<close>

theorem length_invariant:
  "(\<exists>out. returned (bec_dimitriadis_paraboloid_bonded h ind ''paraboloid'' R) = Inr out
      \<and> length out = length ind) \<and>
   (\<exists>out. returned (bec_dimitriadis_paraboloid_not_bonded h ind ''paraboloid'' R) = Inr out
      \<and> length out = length ind) \<and>
   (\<exists>out. returned (bec_gavara_cone h ind ''cone'' a) = Inr out \<and> length out = length ind) \<and>
   (\<exists>out. returned (bec_managuli_cone h ind ''cone'' a) = Inr out \<and> length out = length ind) \<and>
   (ind_shape \<in> {''paraboloid'', ''conical'', ''flat_punch''} \<longrightarrow>
      (\<exists>out. returned (bec_garcia_garcia h ind ind_shape p order) = Inr out
         \<and> length out = length ind)) \<and>
   (\<exists>out. returned (sphere_approx_kontomaris h ind ''paraboloid'' R order') = Inr out
      \<and> length out = length ind)"
proof -
  have garcia: "\<exists>out. returned (bec_garcia_garcia h ind ind_shape p order) = Inr out
      \<and> length out = length ind"
    if "ind_shape \<in> {''paraboloid'', ''conical'', ''flat_punch''}"
  proof -
    from that obtain tbl where "garcia_garcia_factors ind_shape = Some tbl" "length tbl = 4"
      by (rule garcia_supported)
    then show ?thesis by (simp add: bec_garcia_garcia_loop run_loop)
  qed
  show ?thesis
    using garcia
    by (simp add: bec_dimitriadis_paraboloid_bonded_def bec_dimitriadis_paraboloid_not_bonded_def
        bec_gavara_cone_def bec_managuli_cone_def sphere_approx_kontomaris_def run_loop)
qed

theorem length_invariant_witness:
  "\<exists>out. returned (bec_garcia_garcia 1 [PyFloat 0.1, PyNone] ''conical'' 0.5 4) = Inr out
     \<and> length out = length [PyFloat 0.1, PyNone]"
  using length_invariant [where h = 1 and ind = "[PyFloat 0.1, PyNone]"
      and ind_shape = "''conical''" and p = "0.5" and order = 4] by simp

section \<open>Failures of single samples\<close>

text \<open>
  A negative product under the square root is no failure for the code: with numpy's
  default error state \<^verbatim>\<open>np.sqrt\<close> warns and returns nan, nothing is raised, the
  handler does not run, and the coefficient of that sample is nan, not \<open>1.0\<close>. A
  negative product so small that it underflows to zero is not negative any more.
\<close>

lemma negative_product_nan:
  assumes "0 < h" and "x * R < - underflow_threshold"
  shows "dimitriadis_bonded_coeff h R (PyFloat x) = Inr NaN"
    and "dimitriadis_not_bonded_coeff h R (PyFloat x) = Inr NaN"
  using assms
  by (simp_all add: dimitriadis_bonded_coeff_def dimitriadis_not_bonded_coeff_def bind_exn_def
      np_sqrt_negative)

theorem numeric_failure_counterexample:
  "bec_dimitriadis_paraboloid_bonded 1 [PyFloat (- 1)] ''paraboloid'' 1 = (Inr [NaN], [])
   \<and> NaN \<noteq> Fin 1"
proof -
  have "(- 1 :: real) * 1 < - underflow_threshold"
    by (simp add: underflow_threshold_def)
  then have "dimitriadis_bonded_coeff 1 1 (PyFloat (- 1)) = Inr NaN"
    by (intro negative_product_nan) simp_all
  then show ?thesis
    by (simp add: bec_dimitriadis_paraboloid_bonded_def return_coefficients_def)
qed

text \<open>
  C2, amended. For every provider: if the computation of the coefficient of sample \<open>i\<close>
  raises an exception \<open>e\<close> (an overflowing Python power, a Python division by a power
  that underflowed to zero, a malformed element, an index beyond a term table), the call
  still returns a list of the full length, the coefficient of sample \<open>i\<close> in it is
  \<open>1.0\<close>, \<open>e\<close> is printed and not raised to the caller, and every sample has the
  coefficient that the call on that sample alone returns. A negative product under the
  square root raises nothing: in the two Dimitriadis providers, with \<open>h > 0\<close> and a
  product below \<open>- 1 / 2 ^ 1075\<close>, the coefficient of such a sample is nan.
\<close>

theorem exception_isolated:
  assumes "i < length ind"
  shows
    "(dimitriadis_bonded_coeff h R (ind ! i) = Inl e \<longrightarrow>
        isolated (bec_dimitriadis_paraboloid_bonded h ind ''paraboloid'' R)
          (\<lambda>d. bec_dimitriadis_paraboloid_bonded h [d] ''paraboloid'' R) ind i e) \<and>
     (dimitriadis_not_bonded_coeff h R (ind ! i) = Inl e \<longrightarrow>
        isolated (bec_dimitriadis_paraboloid_not_bonded h ind ''paraboloid'' R)
          (\<lambda>d. bec_dimitriadis_paraboloid_not_bonded h [d] ''paraboloid'' R) ind i e) \<and>
     (gavara_coeff h a (ind ! i) = Inl e \<longrightarrow>
        isolated (bec_gavara_cone h ind ''cone'' a)
          (\<lambda>d. bec_gavara_cone h [d] ''cone'' a) ind i e) \<and>
     (managuli_coeff h a (ind ! i) = Inl e \<longrightarrow>
        isolated (bec_managuli_cone h ind ''cone'' a)
          (\<lambda>d. bec_managuli_cone h [d] ''cone'' a) ind i e) \<and>
     (garcia_garcia_factors ind_shape = Some model_factors \<and>
      garcia_coeff model_factors h p order (ind ! i) = Inl e \<longrightarrow>
        isolated (bec_garcia_garcia h ind ind_shape p order)
          (\<lambda>d. bec_garcia_garcia h [d] ind_shape p order) ind i e) \<and>
     (kontomaris_coeff R order' (ind ! i) = Inl e \<longrightarrow>
        isolated (sphere_approx_kontomaris h ind ''paraboloid'' R order')
          (\<lambda>d. sphere_approx_kontomaris h [d] ''paraboloid'' R order') ind i e) \<and>
     (0 < h \<and> ind ! i = PyFloat x \<and> x * R < - underflow_threshold \<longrightarrow>
        (\<exists>out. returned (bec_dimitriadis_paraboloid_bonded h ind ''paraboloid'' R) = Inr out
           \<and> out ! i = NaN) \<and>
        (\<exists>out. returned (bec_dimitriadis_paraboloid_not_bonded h ind ''paraboloid'' R) = Inr out
           \<and> out ! i = NaN))"
proof -
  have garcia: "isolated (bec_garcia_garcia h ind ind_shape p order)
          (\<lambda>d. bec_garcia_garcia h [d] ind_shape p order) ind i e"
    if look: "garcia_garcia_factors ind_shape = Some model_factors"
      and fail: "garcia_coeff model_factors h p order (ind ! i) = Inl e"
  proof -
    from look have "length model_factors = 4"
      by (auto simp: garcia_garcia_factors_def garcia_tables_length split: if_splits)
    with look have "bec_garcia_garcia h ds ind_shape p order =
        return_coefficients (sample_loop (garcia_coeff model_factors h p order) ds ([], []))" for ds
      by (rule bec_garcia_garcia_loop)
    with loop_isolated [of i ind "garcia_coeff model_factors h p order" e] assms fail
    show ?thesis by simp
  qed
  have nan: "(\<exists>out. returned (bec_dimitriadis_paraboloid_bonded h ind ''paraboloid'' R) = Inr out
           \<and> out ! i = NaN) \<and>
        (\<exists>out. returned (bec_dimitriadis_paraboloid_not_bonded h ind ''paraboloid'' R) = Inr out
           \<and> out ! i = NaN)"
    if "0 < h" and "ind ! i = PyFloat x" and "x * R < - underflow_threshold"
    using assms that negative_product_nan [of h x R]
    by (simp add: bec_dimitriadis_paraboloid_bonded_def bec_dimitriadis_paraboloid_not_bonded_def
        run_loop coeff_or_one_def)
  show ?thesis
    using garcia nan assms
      loop_isolated [of i ind "dimitriadis_bonded_coeff h R" e]
      loop_isolated [of i ind "dimitriadis_not_bonded_coeff h R" e]
      loop_isolated [of i ind "gavara_coeff h a" e]
      loop_isolated [of i ind "managuli_coeff h a" e]
      loop_isolated [of i ind "kontomaris_coeff R order'" e]
    by (simp add: bec_dimitriadis_paraboloid_bonded_def bec_dimitriadis_paraboloid_not_bonded_def
        bec_gavara_cone_def bec_managuli_cone_def sphere_approx_kontomaris_def)
qed

text \<open>
  Failures at concrete inputs: a malformed element in the Dimitriadis providers, the
  overflow of \<^verbatim>\<open>X ** 2\<close> and of \<^verbatim>\<open>indentation[i] ** 2\<close> at the depth
  \<open>2 ^ 600\<close> in the cone providers, the division by \<^verbatim>\<open>h ** 2\<close>, which is zero
  at \<open>h = 1 / 2 ^ 600\<close>, in the second flat punch term, and the overflow of
  \<^verbatim>\<open>R ** 2\<close> at \<open>R = 2 ^ 600\<close> in the third Kontomaris term.
\<close>

lemma concrete_failures:
  "dimitriadis_bonded_coeff 1 1 PyNone = Inl TypeError"
  "dimitriadis_not_bonded_coeff 1 1 PyNone = Inl TypeError"
  "gavara_coeff 1 0 (PyFloat (2 ^ 600)) = Inl OverflowError"
  "managuli_coeff 1 0 (PyFloat (2 ^ 600)) = Inl OverflowError"
  "garcia_coeff flat_punch_model_factors (1 / 2 ^ 600) 1 2 (PyFloat 1) = Inl ZeroDivisionError"
  "kontomaris_coeff (2 ^ 600) 3 (PyFloat 1) = Inl OverflowError"
proof -
  have big: "fl64 (2 ^ 600) = Fin (2 ^ 600)"
    by (rule fl64_id) (simp_all add: underflow_threshold_def overflow_threshold_def)
  have over: "py_pow (Fin (2 ^ 600)) 2 = Inl OverflowError"
    by (simp add: overflow_threshold_def)
  have one: "py_pow (Fin 1) 2 = Inr (Fin 1)"
    using py_pow_ordinary [of 1 2] by simp
  have "fl64 ((1 / 2 ^ 600) ^ 2) = Fin 0"
    by (rule fl64_underflow) (simp add: underflow_threshold_def power_divide)
  moreover have "\<not> overflow_threshold \<le> \<bar>(1 / 2 ^ 600 :: real) ^ 2\<bar>"
    by (simp add: overflow_threshold_def power_divide)
  ultimately have under: "py_pow (Fin (1 / 2 ^ 600)) 2 = Inr (Fin 0)"
    by simp
  show "dimitriadis_bonded_coeff 1 1 PyNone = Inl TypeError"
    by (simp add: dimitriadis_bonded_coeff_def bind_exn_def)
  show "dimitriadis_not_bonded_coeff 1 1 PyNone = Inl TypeError"
    by (simp add: dimitriadis_not_bonded_coeff_def bind_exn_def)
  show "gavara_coeff 1 0 (PyFloat (2 ^ 600)) = Inl OverflowError"
    using big over
    by (simp add: gavara_coeff_def bind_exn_def py_truediv_def Let_def del: py_pow.simps)
  show "managuli_coeff 1 0 (PyFloat (2 ^ 600)) = Inl OverflowError"
    using over
    by (simp add: managuli_coeff_def bind_exn_def Let_def del: py_pow.simps)
  show "garcia_coeff flat_punch_model_factors (1 / 2 ^ 600) 1 2 (PyFloat 1) = Inl ZeroDivisionError"
    using one under
    by (simp add: garcia_coeff_def flat_punch_model_factors_def upt_numerals bind_exn_def
        py_truediv_def del: py_pow.simps)
  show "kontomaris_coeff (2 ^ 600) 3 (PyFloat 1) = Inl OverflowError"
    using over
    by (simp add: kontomaris_coeff_def kontomaris_model_factors_def upt_numerals bind_exn_def
        Let_def del: py_pow.simps)
qed

theorem exception_isolated_witness:
  "dimitriadis_bonded_coeff 1 1 ([PyNone, PyFloat 0] ! 0) = Inl TypeError \<and>
   isolated (bec_dimitriadis_paraboloid_bonded 1 [PyNone, PyFloat 0] ''paraboloid'' 1)
     (\<lambda>d. bec_dimitriadis_paraboloid_bonded 1 [d] ''paraboloid'' 1) [PyNone, PyFloat 0] 0 TypeError \<and>
   dimitriadis_not_bonded_coeff 1 1 ([PyNone, PyFloat 0] ! 0) = Inl TypeError \<and>
   isolated (bec_dimitriadis_paraboloid_not_bonded 1 [PyNone, PyFloat 0] ''paraboloid'' 1)
     (\<lambda>d. bec_dimitriadis_paraboloid_not_bonded 1 [d] ''paraboloid'' 1) [PyNone, PyFloat 0] 0
     TypeError \<and>
   gavara_coeff 1 0 ([PyFloat 1, PyFloat (2 ^ 600)] ! 1) = Inl OverflowError \<and>
   isolated (bec_gavara_cone 1 [PyFloat 1, PyFloat (2 ^ 600)] ''cone'' 0)
     (\<lambda>d. bec_gavara_cone 1 [d] ''cone'' 0) [PyFloat 1, PyFloat (2 ^ 600)] 1 OverflowError \<and>
   managuli_coeff 1 0 ([PyFloat 1, PyFloat (2 ^ 600)] ! 1) = Inl OverflowError \<and>
   isolated (bec_managuli_cone 1 [PyFloat 1, PyFloat (2 ^ 600)] ''cone'' 0)
     (\<lambda>d. bec_managuli_cone 1 [d] ''cone'' 0) [PyFloat 1, PyFloat (2 ^ 600)] 1 OverflowError \<and>
   garcia_garcia_factors ''flat_punch'' = Some flat_punch_model_factors \<and>
   garcia_coeff flat_punch_model_factors (1 / 2 ^ 600) 1 2 ([PyFloat 1] ! 0) = Inl ZeroDivisionError \<and>
   isolated (bec_garcia_garcia (1 / 2 ^ 600) [PyFloat 1] ''flat_punch'' 1 2)
     (\<lambda>d. bec_garcia_garcia (1 / 2 ^ 600) [d] ''flat_punch'' 1 2) [PyFloat 1] 0 ZeroDivisionError \<and>
   kontomaris_coeff (2 ^ 600) 3 ([PyFloat 1] ! 0) = Inl OverflowError \<and>
   isolated (sphere_approx_kontomaris 1 [PyFloat 1] ''paraboloid'' (2 ^ 600) 3)
     (\<lambda>d. sphere_approx_kontomaris 1 [d] ''paraboloid'' (2 ^ 600) 3) [PyFloat 1] 0 OverflowError \<and>
   (0 :: real) < 1 \<and> [PyFloat 0, PyFloat (- 1)] ! 1 = PyFloat (- 1) \<and>
   (- 1 :: real) * 1 < - underflow_threshold \<and>
   (\<exists>out. returned (bec_dimitriadis_paraboloid_bonded 1 [PyFloat 0, PyFloat (- 1)] ''paraboloid'' 1)
      = Inr out \<and> out ! 1 = NaN) \<and>
   (\<exists>out. returned (bec_dimitriadis_paraboloid_not_bonded 1 [PyFloat 0, PyFloat (- 1)]
      ''paraboloid'' 1) = Inr out \<and> out ! 1 = NaN)"
proof -
  note f = concrete_failures
  have l: "garcia_garcia_factors ''flat_punch'' = Some flat_punch_model_factors"
    by (simp add: garcia_garcia_factors_def)
  have neg: "(- 1 :: real) * 1 < - underflow_threshold"
    by (simp add: underflow_threshold_def)
  have len0: "0 < length [PyNone, PyFloat 0]"
    and len1: "1 < length [PyFloat 1, PyFloat (2 ^ 600)]"
    and len2: "0 < length [PyFloat 1]"
    and len3: "1 < length [PyFloat 0, PyFloat (- 1)]"
    by simp_all
  have a: "isolated (bec_dimitriadis_paraboloid_bonded 1 [PyNone, PyFloat 0] ''paraboloid'' 1)
       (\<lambda>d. bec_dimitriadis_paraboloid_bonded 1 [d] ''paraboloid'' 1) [PyNone, PyFloat 0] 0
       TypeError \<and>
     isolated (bec_dimitriadis_paraboloid_not_bonded 1 [PyNone, PyFloat 0] ''paraboloid'' 1)
       (\<lambda>d. bec_dimitriadis_paraboloid_not_bonded 1 [d] ''paraboloid'' 1) [PyNone, PyFloat 0] 0
       TypeError"
    using exception_isolated [OF len0, where h = 1 and R = 1 and e = TypeError] f(1,2) by simp
  have b: "isolated (bec_gavara_cone 1 [PyFloat 1, PyFloat (2 ^ 600)] ''cone'' 0)
       (\<lambda>d. bec_gavara_cone 1 [d] ''cone'' 0) [PyFloat 1, PyFloat (2 ^ 600)] 1 OverflowError \<and>
     isolated (bec_managuli_cone 1 [PyFloat 1, PyFloat (2 ^ 600)] ''cone'' 0)
       (\<lambda>d. bec_managuli_cone 1 [d] ''cone'' 0) [PyFloat 1, PyFloat (2 ^ 600)] 1 OverflowError"
    using exception_isolated [OF len1, where h = 1 and a = 0 and e = OverflowError] f(3,4)
    by simp
  have c: "isolated (bec_garcia_garcia (1 / 2 ^ 600) [PyFloat 1] ''flat_punch'' 1 2)
       (\<lambda>d. bec_garcia_garcia (1 / 2 ^ 600) [d] ''flat_punch'' 1 2) [PyFloat 1] 0
       ZeroDivisionError"
    using exception_isolated [OF len2, where h = "1 / 2 ^ 600" and ind_shape = "''flat_punch''"
        and model_factors = flat_punch_model_factors and p = 1 and order = 2
        and e = ZeroDivisionError] l f(5)
    by simp
  have d: "isolated (sphere_approx_kontomaris 1 [PyFloat 1] ''paraboloid'' (2 ^ 600) 3)
       (\<lambda>d. sphere_approx_kontomaris 1 [d] ''paraboloid'' (2 ^ 600) 3) [PyFloat 1] 0
       OverflowError"
    using exception_isolated [OF len2, where h = 1 and R = "2 ^ 600" and order' = 3
        and e = OverflowError] f(6)
    by simp
  have n: "(\<exists>out. returned
        (bec_dimitriadis_paraboloid_bonded 1 [PyFloat 0, PyFloat (- 1)] ''paraboloid'' 1)
          = Inr out \<and> out ! 1 = NaN) \<and>
      (\<exists>out. returned (bec_dimitriadis_paraboloid_not_bonded 1 [PyFloat 0, PyFloat (- 1)]
          ''paraboloid'' 1) = Inr out \<and> out ! 1 = NaN)"
    using exception_isolated [OF len3, where h = 1 and R = 1 and x = "- 1"] neg by simp
  from a b c d n f l neg show ?thesis by simp
qed

section \<open>The geometry gate\<close>

text \<open>
  The exception of the Kontomaris provider has a fixed message: it does not contain the
  offending tag, and two different offending tags give the same outcome.
\<close>

theorem kontomaris_error_counterexample:
  "returned (sphere_approx_kontomaris 1 [PyFloat 0.1] ''cone'' 5 6) =
     Inl (Exception ''The Kontomaris approximation is only suitable for the paraboloid geometry.'')
   \<and> \<not> sublist ''cone''
       ''The Kontomaris approximation is only suitable for the paraboloid geometry.''
   \<and> sphere_approx_kontomaris 1 [PyFloat 0.1] ''cone'' 5 6 =
     sphere_approx_kontomaris 1 [PyFloat 0.1] ''flat_punch'' 5 6"
  by (simp add: sphere_approx_kontomaris_def raise_def sublist_code)

text \<open>
  C3, amended. A provider called with a tag that its gate rejects raises an exception and
  returns no list; nothing is computed or printed for any sample, whatever the samples are.
  The messages of the two Dimitriadis providers and of the Gavara, Managuli and Garcia
  providers contain the offending tag. In particular \<^verbatim>\<open>bec_gavara_cone\<close> with the
  shape \<^verbatim>\<open>"paraboloid"\<close> fails.
\<close>

theorem geometry_gate:
  "(ind_shape \<noteq> ''paraboloid'' \<longrightarrow>
      bec_dimitriadis_paraboloid_bonded h ind ind_shape R =
        (Inl (Exception (''The Dimitriadis paraboloid bonded BEC model is not suitable for the ''
           @ ind_shape @ '' geometry.'')), [])) \<and>
   (ind_shape \<noteq> ''paraboloid'' \<longrightarrow>
      bec_dimitriadis_paraboloid_not_bonded h ind ind_shape R =
        (Inl (Exception (''The Dimitriadis paraboloid not bonded BEC model is not suitable for the ''
           @ ind_shape @ '' geometry.'')), [])) \<and>
   (ind_shape \<noteq> ''cone'' \<longrightarrow>
      bec_gavara_cone h ind ind_shape a =
        (Inl (Exception (''The Gavara cone BEC model is not suitable for the ''
           @ ind_shape @ '' geometry.'')), [])) \<and>
   (ind_shape \<noteq> ''cone'' \<longrightarrow>
      bec_managuli_cone h ind ind_shape a =
        (Inl (Exception (''The Managuli cone BEC model is not suitable for the ''
           @ ind_shape @ '' geometry.'')), [])) \<and>
   (ind_shape \<notin> {''paraboloid'', ''conical'', ''flat_punch''} \<longrightarrow>
      bec_garcia_garcia h ind ind_shape p order =
        (Inl (Exception (''The Garcia, Garcia BEC model is not suitable for the ''
           @ ind_shape @ '' geometry.'')), [])) \<and>
   (ind_shape \<noteq> ''paraboloid'' \<longrightarrow>
      (\<exists>msg. sphere_approx_kontomaris h ind ind_shape R order' = (Inl (Exception msg), []))) \<and>
   bec_gavara_cone 1 [PyFloat 0.1] ''paraboloid'' 0.5 =
     (Inl (Exception ''The Gavara cone BEC model is not suitable for the paraboloid geometry.''), [])"
  by (simp add: bec_dimitriadis_paraboloid_bonded_def bec_dimitriadis_paraboloid_not_bonded_def
      bec_gavara_cone_def bec_managuli_cone_def sphere_approx_kontomaris_def
      bec_garcia_garcia_def garcia_lookup_none raise_def)

theorem geometry_gate_witness:
  "''sphere'' \<noteq> ''paraboloid'' \<and> ''sphere'' \<noteq> ''cone'' \<and>
   ''sphere'' \<notin> {''paraboloid'', ''conical'', ''flat_punch''} \<and>
   bec_dimitriadis_paraboloid_bonded 2 [PyFloat 0.5, PyNone] ''sphere'' 5 =
     (Inl (Exception
        ''The Dimitriadis paraboloid bonded BEC model is not suitable for the sphere geometry.''), []) \<and>
   bec_dimitriadis_paraboloid_not_bonded 2 [PyFloat 0.5, PyNone] ''sphere'' 5 =
     (Inl (Exception
        ''The Dimitriadis paraboloid not bonded BEC model is not suitable for the sphere geometry.''), []) \<and>
   bec_gavara_cone 2 [PyFloat 0.5, PyNone] ''sphere'' 1 =
     (Inl (Exception ''The Gavara cone BEC model is not suitable for the sphere geometry.''), []) \<and>
   bec_managuli_cone 2 [PyFloat 0.5, PyNone] ''sphere'' 1 =
     (Inl (Exception ''The Managuli cone BEC model is not suitable for the sphere geometry.''), []) \<and>
   bec_garcia_garcia 2 [PyFloat 0.5, PyNone] ''sphere'' 5 4 =
     (Inl (Exception ''The Garcia, Garcia BEC model is not suitable for the sphere geometry.''), []) \<and>
   (\<exists>msg. sphere_approx_kontomaris 2 [PyFloat 0.5, PyNone] ''sphere'' 5 6 =
      (Inl (Exception msg), []))"
  using geometry_gate [where ind_shape = "''sphere''" and h = 2 and ind = "[PyFloat 0.5, PyNone]"
      and R = 5 and a = 1 and p = 5 and order = 4 and order' = 6]
  by simp

section \<open>An order beyond the term table\<close>

text \<open>
  The index error of \<^verbatim>\<open>model_factors[j]\<close> is raised inside the \<^verbatim>\<open>try\<close> of a
  sample, so the handler of the loop catches it.
\<close>

lemma garcia_terms_index_error:
  "\<exists>j\<in>set js. length model_factors \<le> j \<Longrightarrow>
     \<exists>e. garcia_terms model_factors h d p js coeff = Inl e"
  by (induction js arbitrary: coeff) (auto split: sum.splits)

lemma garcia_coeff_order_exceeds:
  assumes "length model_factors = 4" and "4 < order"
  shows "coeff_or_one (garcia_coeff model_factors h p order) d = Fin 1"
    and "0 < h \<Longrightarrow> \<exists>e. garcia_coeff model_factors h p order d = Inl e"
    and "\<not> 0 < h \<Longrightarrow> garcia_coeff model_factors h p order d = Inr (Fin 1)"
proof -
  from assms have "\<exists>j\<in>set [0..<nat order]. length model_factors \<le> j"
    by (intro bexI[of _ 4]) auto
  then have fail: "\<exists>e. garcia_terms model_factors h d p [0..<nat order] (Fin 1) = Inl e"
    by (rule garcia_terms_index_error)
  then show "coeff_or_one (garcia_coeff model_factors h p order) d = Fin 1"
    by (auto simp: coeff_or_one_def garcia_coeff_def)
  from fail show "0 < h \<Longrightarrow> \<exists>e. garcia_coeff model_factors h p order d = Inl e"
    by (simp add: garcia_coeff_def)
  show "\<not> 0 < h \<Longrightarrow> garcia_coeff model_factors h p order d = Inr (Fin 1)"
    by (simp add: garcia_coeff_def)
qed

text \<open>
  With order 5 the call returns \<open>[1.0]\<close> and prints the index error; it raises nothing.
\<close>

theorem order_exceeds_table_counterexample:
  "bec_garcia_garcia 1 [PyFloat 0.1] ''paraboloid'' 5 5 = (Inr [Fin 1], [IndexError])"
  by (simp add: bec_garcia_garcia_def garcia_lookup return_coefficients_def
      garcia_coeff_def paraboloid_model_factors_def upt_numerals bind_exn_def
      py_truediv_def py_pow_ordinary Let_def del: py_pow.simps)

text \<open>
  C4, amended. \<^verbatim>\<open>bec_garcia_garcia\<close> called with a supported shape and an order
  above 4 raises nothing: it returns a list of the length of the input in which every
  coefficient is \<open>1.0\<close>. When \<open>h > 0\<close> every sample fails inside the loop and one
  traceback is printed per sample; when \<open>h \<le> 0\<close> no term is looked up and nothing is
  printed.
\<close>

theorem order_exceeds_table:
  assumes "4 < order" and "ind_shape \<in> {''paraboloid'', ''conical'', ''flat_punch''}"
  shows "returned (bec_garcia_garcia h ind ind_shape p order) =
           Inr (replicate (length ind) (Fin 1)) \<and>
         length (printed (bec_garcia_garcia h ind ind_shape p order)) =
           (if 0 < h then length ind else 0)"
proof (intro conjI)
  from assms(2) obtain tbl where tbl: "garcia_garcia_factors ind_shape = Some tbl" "length tbl = 4"
    by (rule garcia_supported)
  have "map (coeff_or_one (garcia_coeff tbl h p order)) ind = replicate (length ind) (Fin 1)"
    by (rule map_const) (simp add: garcia_coeff_order_exceeds(1)[OF tbl(2) assms(1)])
  with tbl show "returned (bec_garcia_garcia h ind ind_shape p order) =
           Inr (replicate (length ind) (Fin 1))"
    by (simp add: bec_garcia_garcia_loop run_loop)
  have "length (raised (garcia_coeff tbl h p order) ind) = (if 0 < h then length ind else 0)"
  proof (cases "0 < h")
    case True
    then have "length (raised (garcia_coeff tbl h p order) ind) = length ind"
      by (intro raised_all) (simp add: garcia_coeff_order_exceeds(2)[OF tbl(2) assms(1)])
    with True show ?thesis by simp
  next
    case False
    then have "raised (garcia_coeff tbl h p order) ind = []"
      by (intro raised_none) (simp add: garcia_coeff_order_exceeds(3)[OF tbl(2) assms(1)])
    with False show ?thesis by simp
  qed
  with tbl show "length (printed (bec_garcia_garcia h ind ind_shape p order)) =
           (if 0 < h then length ind else 0)"
    by (simp add: bec_garcia_garcia_loop run_loop)
qed

theorem order_exceeds_table_witness:
  "(4::int) < 7 \<and> ''conical'' \<in> {''paraboloid'', ''conical'', ''flat_punch''} \<and>
   returned (bec_garcia_garcia 2 [PyFloat 0.5, PyFloat 0.25, PyNone] ''conical'' 1 7) =
     Inr [Fin 1, Fin 1, Fin 1] \<and>
   length (printed (bec_garcia_garcia 2 [PyFloat 0.5, PyFloat 0.25, PyNone] ''conical'' 1 7)) = 3"
proof -
  have o: "(4::int) < 7" by simp
  have s: "''conical'' \<in> {''paraboloid'', ''conical'', ''flat_punch''}" by simp
  show ?thesis
    using order_exceeds_table [OF o s, where h = 2 and ind = "[PyFloat 0.5, PyFloat 0.25, PyNone]"
        and p = 1]
    by (simp add: numeral_3_eq_3)
qed

section \<open>Non-positive sample height\<close>

text \<open>
  C5. For every provider but Kontomaris, a sample height \<open>h \<le> 0\<close> gives \<open>1.0\<close>
  for every sample, whatever the indentation sequence, the tip parameter and the order
  are, for every shape that passes the gate; no sample is touched, so nothing is printed.
\<close>

theorem identity_at_nonpositive_height:
  assumes "h \<le> 0"
  shows
    "bec_dimitriadis_paraboloid_bonded h ind ''paraboloid'' R =
       (Inr (replicate (length ind) (Fin 1)), []) \<and>
     bec_dimitriadis_paraboloid_not_bonded h ind ''paraboloid'' R =
       (Inr (replicate (length ind) (Fin 1)), []) \<and>
     bec_gavara_cone h ind ''cone'' a = (Inr (replicate (length ind) (Fin 1)), []) \<and>
     bec_managuli_cone h ind ''cone'' a = (Inr (replicate (length ind) (Fin 1)), []) \<and>
     (ind_shape \<in> {''paraboloid'', ''conical'', ''flat_punch''} \<longrightarrow>
        bec_garcia_garcia h ind ind_shape p order = (Inr (replicate (length ind) (Fin 1)), []))"
proof -
  have garcia: "bec_garcia_garcia h ind ind_shape p order =
      (Inr (replicate (length ind) (Fin 1)), [])"
    if "ind_shape \<in> {''paraboloid'', ''conical'', ''flat_punch''}"
  proof -
    from that obtain tbl where tbl: "garcia_garcia_factors ind_shape = Some tbl" "length tbl = 4"
      by (rule garcia_supported)
    have "garcia_coeff tbl h p order d = Inr (Fin 1)" for d
      using assms by (simp add: garcia_coeff_def)
    with tbl show ?thesis by (simp add: bec_garcia_garcia_loop loop_neutral)
  qed
  have "dimitriadis_bonded_coeff h R d = Inr (Fin 1)"
    "dimitriadis_not_bonded_coeff h R d = Inr (Fin 1)"
    "gavara_coeff h a d = Inr (Fin 1)"
    "managuli_coeff h a d = Inr (Fin 1)" for d
    using assms
    by (simp_all add: dimitriadis_bonded_coeff_def dimitriadis_not_bonded_coeff_def
        gavara_coeff_def managuli_coeff_def)
  with garcia show ?thesis
    by (simp add: bec_dimitriadis_paraboloid_bonded_def bec_dimitriadis_paraboloid_not_bonded_def
        bec_gavara_cone_def bec_managuli_cone_def loop_neutral)
qed

theorem identity_at_nonpositive_height_witness:
  "(- 1::real) \<le> 0 \<and> ''flat_punch'' \<in> {''paraboloid'', ''conical'', ''flat_punch''} \<and>
   bec_dimitriadis_paraboloid_bonded (- 1) [PyFloat 0.5, PyNone] ''paraboloid'' 5 =
     (Inr [Fin 1, Fin 1], []) \<and>
   bec_dimitriadis_paraboloid_not_bonded (- 1) [PyFloat 0.5, PyNone] ''paraboloid'' 5 =
     (Inr [Fin 1, Fin 1], []) \<and>
   bec_gavara_cone (- 1) [PyFloat 0.5, PyNone] ''cone'' 1 = (Inr [Fin 1, Fin 1], []) \<and>
   bec_managuli_cone (- 1) [PyFloat 0.5, PyNone] ''cone'' 1 = (Inr [Fin 1, Fin 1], []) \<and>
   bec_garcia_garcia (- 1) [PyFloat 0.5, PyNone] ''flat_punch'' 5 9 = (Inr [Fin 1, Fin 1], [])"
proof -
  have h: "(- 1::real) \<le> 0" by simp
  show ?thesis
    using identity_at_nonpositive_height [OF h, where ind = "[PyFloat 0.5, PyNone]" and R = 5
        and a = 1 and ind_shape = "''flat_punch''" and p = 5 and order = 9]
    by (simp add: numeral_2_eq_2)
qed

section \<open>Zero indentation\<close>









section \<open>The Dimitriadis scenario\<close>

text \<open>
  Where the product under the root, the root and \<open>X\<close> are of ordinary size, with
  \<open>1/2 \<le> X \<le> 1\<close>, no step of the series leaves the range, and the coefficient is the
  value of the series.
\<close>

lemma dimitriadis_bonded_series:
  assumes "0 < h" and "0 \<le> x * R"
    and X: "1 / 2 \<le> sqrt (x * R) / h" "sqrt (x * R) / h \<le> 1"
    and p: "1 / 100 \<le> x * R" "x * R \<le> 100" and s: "1 / 100 \<le> sqrt (x * R)" "sqrt (x * R) \<le> 100"
  shows "dimitriadis_bonded_coeff h R (PyFloat x) =
     Inr (Fin (spec_dimitriadis_bonded_series (sqrt (x * R) / h)))"
proof -
  define X where "X = sqrt (x * R) / h"
  have X': "1 / 2 \<le> X" "X \<le> 1" using X by (simp_all add: X_def)
  have X0: "0 \<le> X" using X' by simp
  have p2: "1 / 4 \<le> X ^ 2" "X ^ 2 \<le> 1"
    using power_mono [of "1 / 2" X 2] X' power_le_one [of X 2] by (simp_all add: power_divide)
  have p3: "1 / 8 \<le> X ^ 3" "X ^ 3 \<le> 1"
    using power_mono [of "1 / 2" X 3] X' power_le_one [of X 3] by (simp_all add: power_divide)
  have p4: "1 / 16 \<le> X ^ 4" "X ^ 4 \<le> 1"
    using power_mono [of "1 / 2" X 4] X' power_le_one [of X 4] by (simp_all add: power_divide)
  have e1: "f64_mul (Fin x) (Fin R) = Fin (x * R)"
    using p by (simp add: fl64_moderate)
  have e2: "np_sqrt (Fin (x * R)) = Fin (sqrt (x * R))"
    using s assms(2) by (simp add: fl64_moderate)
  have fX: "fl64 X = Fin X"
    using X' by (intro fl64_moderate) linarith+
  have e3: "np_truediv (Fin (sqrt (x * R))) (Fin h) = Fin X"
    using assms(1) fX by (simp add: X_def)
  have e4: "np_power (Fin X) 2 = Fin (X ^ 2)" "np_power (Fin X) 3 = Fin (X ^ 3)"
    "np_power (Fin X) 4 = Fin (X ^ 4)"
    using p2 p3 p4 by (simp_all add: fl64_moderate)
  have e5: "f64_mul (Fin 1.133) (Fin X) = Fin (1.133 * X)"
    "f64_mul (Fin 1.283) (Fin (X ^ 2)) = Fin (1.283 * X ^ 2)"
    "f64_mul (Fin 0.769) (Fin (X ^ 3)) = Fin (0.769 * X ^ 3)"
    "f64_mul (Fin 0.0975) (Fin (X ^ 4)) = Fin (0.0975 * X ^ 4)"
    using X' p2 p3 p4 by (simp_all add: fl64_moderate)
  have e6: "f64_add (Fin (1.133 * X)) (Fin (1.283 * X ^ 2)) = Fin (1.133 * X + 1.283 * X ^ 2)"
    "f64_add (Fin (0.769 * X ^ 3)) (Fin (0.0975 * X ^ 4)) = Fin (0.769 * X ^ 3 + 0.0975 * X ^ 4)"
    using X' p2 p3 p4 by (simp_all add: fl64_moderate)
  have e7: "f64_add (Fin 1) (Fin (1.133 * X + 1.283 * X ^ 2)) = Fin (1 + (1.133 * X + 1.283 * X ^ 2))"
    using X' p2 by (simp add: fl64_moderate)
  have e8: "f64_add (Fin (1 + (1.133 * X + 1.283 * X ^ 2))) (Fin (0.769 * X ^ 3 + 0.0975 * X ^ 4))
      = Fin (spec_dimitriadis_bonded_series X)"
    using X' p2 p3 p4 by (simp add: fl64_moderate spec_dimitriadis_bonded_series_def)
  show ?thesis
    unfolding dimitriadis_bonded_coeff_def X_def [symmetric]
    using assms(1)
    by (simp only: if_True operand.simps bind_exn_def sum.case Let_def e1 e2 e3 [unfolded X_def [symmetric]] e4 e5 e6 e7 e8)
qed

lemma sqrt_5_2_bounds: "1.5811 < sqrt (5 / 2)" "sqrt (5 / 2) < 1.5812"
proof -
  show "1.5811 < sqrt (5 / 2)"
    by (rule real_less_rsqrt) (simp add: power2_eq_square)
  show "sqrt (5 / 2) < 1.5812"
    by (rule real_less_lsqrt) (simp_all add: power2_eq_square)
qed

lemma series_value:
  "spec_dimitriadis_bonded_series (sqrt (5 / 2) / 2) = 1.8399609375 + 0.8068125 * sqrt (5 / 2)"
proof -
  define s :: real where "s = sqrt (5 / 2)"
  have ss: "s * s = 5 / 2" by (simp add: s_def)
  have p2: "(s / 2) ^ 2 = 5 / 8" using ss by (simp add: power2_eq_square)
  have p3: "(s / 2) ^ 3 = 5 / 16 * s"
    using ss by (simp add: power3_eq_cube)
  have p4: "(s / 2) ^ 4 = 25 / 64"
  proof -
    have "(s / 2) ^ 4 = (s / 2) ^ 2 * (s / 2) ^ 2"
      by (simp add: power4_eq_xxxx power2_eq_square)
    also have "\<dots> = 25 / 64" by (simp add: p2)
    finally show ?thesis .
  qed
  show ?thesis
    unfolding spec_dimitriadis_bonded_series_def s_def [symmetric] p2 p3 p4 by simp
qed

lemma scenario_run:
  "bec_dimitriadis_paraboloid_bonded 2.0 [PyFloat 0.5] ''paraboloid'' 5.0 =
     (Inr [Fin (spec_dimitriadis_bonded_series (sqrt (0.5 * 5) / 2))], [])"
proof -
  have "dimitriadis_bonded_coeff 2 5 (PyFloat 0.5) =
      Inr (Fin (spec_dimitriadis_bonded_series (sqrt (0.5 * 5) / 2)))"
    using sqrt_5_2_bounds by (intro dimitriadis_bonded_series) simp_all
  then show ?thesis
    by (simp add: bec_dimitriadis_paraboloid_bonded_def return_coefficients_def)
qed

text \<open>
  The call of the scenario returns the value of the series at \<open>X = sqrt (0.5 * 5) / 2\<close>,
  and that value is more than 0.4 away from 2.699.
\<close>

theorem dimitriadis_scenario_counterexample:
  "returned (bec_dimitriadis_paraboloid_bonded 2.0 [PyFloat 0.5] ''paraboloid'' 5.0) =
     Inr [Fin (spec_dimitriadis_bonded_series (sqrt (0.5 * 5) / 2))] \<and>
   \<bar>spec_dimitriadis_bonded_series (sqrt (0.5 * 5) / 2) - 2.699\<bar> > 0.4"
proof -
  have "spec_dimitriadis_bonded_series (sqrt (0.5 * 5) / 2) > 3.1"
    using sqrt_5_2_bounds(1) by (simp add: series_value)
  then show ?thesis using scenario_run by simp
qed

text \<open>
  C7, amended. \<^verbatim>\<open>bec_dimitriadis_paraboloid_bonded(h=2.0, indentation=[0.5],
  ind_shape="paraboloid", R=5.0)\<close> returns a single coefficient, the value of
  \<open>1 + 1.133 X + 1.283 X\<^sup>2 + 0.769 X\<^sup>3 + 0.0975 X\<^sup>4\<close> at \<open>X = sqrt (0.5 * 5) / 2\<close>,
  where \<open>X\<close> is 0.7906 and the coefficient is 3.1156, both within 0.0001.
\<close>

theorem dimitriadis_scenario:
  "returned (bec_dimitriadis_paraboloid_bonded 2.0 [PyFloat 0.5] ''paraboloid'' 5.0) =
     Inr [Fin (spec_dimitriadis_bonded_series (sqrt (0.5 * 5) / 2))] \<and>
   \<bar>sqrt (0.5 * 5) / 2 - 0.7906\<bar> < 0.0001 \<and>
   \<bar>spec_dimitriadis_bonded_series (sqrt (0.5 * 5) / 2) - 3.1156\<bar> < 0.0001"
proof -
  have "\<bar>sqrt (5 / 2) / 2 - 0.7906\<bar> < 0.0001"
    using sqrt_5_2_bounds by simp
  moreover have "\<bar>spec_dimitriadis_bonded_series (sqrt (5 / 2) / 2) - 3.1156\<bar> < 0.0001"
    using sqrt_5_2_bounds by (simp add: series_value)
  ultimately show ?thesis using scenario_run by simp
qed

section \<open>The Kontomaris provider\<close>

lemma sqrt_5_bounds: "2 < sqrt 5" "sqrt 5 < 3"
proof -
  show "2 < sqrt 5" by (rule real_less_rsqrt) simp
  show "sqrt 5 < 3" by (rule real_less_lsqrt) simp_all
qed

lemma kontomaris_first_term:
  "np_sqrt (Fin 5) = Fin (sqrt 5)"
  "np_truediv (Fin (2 / 3 * 1.0100000)) (Fin (sqrt 5)) = Fin (2 / 3 * 1.01 / sqrt 5)"
  "f64_mul (Fin (3 / 2)) (Fin (sqrt 5)) = Fin (3 / 2 * sqrt 5)"
  "f64_mul (Fin (3 / 2 * sqrt 5)) (Fin (2 / 3 * 1.01 / sqrt 5)) = Fin (3 / 2 * sqrt 5 * (2 / 3 * 1.01 / sqrt 5))"
  "f64_add (Fin 0) (Fin (3 / 2 * sqrt 5 * (2 / 3 * 1.01 / sqrt 5))) = Fin (3 / 2 * sqrt 5 * (2 / 3 * 1.01 / sqrt 5))"
  "f64_add (Fin (3 / 2 * sqrt 5 * (2 / 3 * 1.01 / sqrt 5))) (Fin 0) = Fin (3 / 2 * sqrt 5 * (2 / 3 * 1.01 / sqrt 5))"
  "3 / 2 * sqrt 5 * (2 / 3 * 1.01 / sqrt 5) = (1.01 :: real)"
proof -
  note s = sqrt_5_bounds
  have small: "(1 / 2 ^ 500 :: real) \<le> 1 / 10" and big: "(10 :: real) \<le> 2 ^ 500"
    by simp_all
  have ord: "fl64 x = Fin x" if "1 / 10 \<le> x" and "x \<le> 10" for x
    using that small big by (intro fl64_ordinary) linarith+
  show "np_sqrt (Fin 5) = Fin (sqrt 5)"
    using s by (simp add: ord)
  have q: "1 / 10 \<le> 2 / 3 * 1.01 / sqrt 5" "2 / 3 * 1.01 / sqrt 5 \<le> 10"
    using s by (simp_all add: field_simps)
  show "np_truediv (Fin (2 / 3 * 1.0100000)) (Fin (sqrt 5)) = Fin (2 / 3 * 1.01 / sqrt 5)"
    using s q by (simp add: ord)
  show "f64_mul (Fin (3 / 2)) (Fin (sqrt 5)) = Fin (3 / 2 * sqrt 5)"
    using s by (simp add: ord)
  show v: "3 / 2 * sqrt 5 * (2 / 3 * 1.01 / sqrt 5) = (1.01 :: real)"
    using s by simp
  show "f64_mul (Fin (3 / 2 * sqrt 5)) (Fin (2 / 3 * 1.01 / sqrt 5)) = Fin (3 / 2 * sqrt 5 * (2 / 3 * 1.01 / sqrt 5))"
    unfolding f64_mul.simps v by (simp add: ord)
  show "f64_add (Fin 0) (Fin (3 / 2 * sqrt 5 * (2 / 3 * 1.01 / sqrt 5))) = Fin (3 / 2 * sqrt 5 * (2 / 3 * 1.01 / sqrt 5))"
    unfolding v by (simp add: ord)
  show "f64_add (Fin (3 / 2 * sqrt 5 * (2 / 3 * 1.01 / sqrt 5))) (Fin 0) = Fin (3 / 2 * sqrt 5 * (2 / 3 * 1.01 / sqrt 5))"
    unfolding v by (simp add: ord)
qed

text \<open>
  C8. \<^verbatim>\<open>sphere_approx_kontomaris\<close> with the indentation \<open>[0.0]\<close>, the shape
  \<^verbatim>\<open>"paraboloid"\<close>, \<open>R = 5.0\<close> and the default order 6 returns the single coefficient
  \<open>(3/2) sqrt 5 \<cdot> (2/3) 1.01 / sqrt 5\<close>, which is 1.01: at depth 0 the terms of order 2 to 6
  are 0 and the term of order 1, which does not depend on the depth, remains.
\<close>

theorem kontomaris_zero_depth:
  "sphere_approx_kontomaris_default h [PyFloat 0.0] ''paraboloid'' 5.0 =
     (Inr [Fin (3 / 2 * sqrt 5 * (2 / 3 * 1.01 / sqrt 5))], []) \<and>
   3 / 2 * sqrt 5 * (2 / 3 * 1.01 / sqrt 5) = (1.01 :: real) \<and>
   map (\<lambda>f. f (PyFloat 0.0) 5.0) kontomaris_model_factors =
     [Inr (Fin (2 / 3 * 1.01 / sqrt 5)), Inr (Fin 0), Inr (Fin 0), Inr (Fin 0), Inr (Fin 0),
      Inr (Fin 0)]"
proof (intro conjI)
  show "map (\<lambda>f. f (PyFloat 0.0) 5.0) kontomaris_model_factors =
     [Inr (Fin (2 / 3 * 1.01 / sqrt 5)), Inr (Fin 0), Inr (Fin 0), Inr (Fin 0), Inr (Fin 0),
      Inr (Fin 0)]"
    using kontomaris_first_term(1,2)
    by (simp add: kontomaris_model_factors_def bind_exn_def py_pow_ordinary py_pow_zero
        np_truediv_zero Let_def del: py_pow.simps np_truediv.simps(1) np_sqrt.simps(1))
  show "3 / 2 * sqrt 5 * (2 / 3 * 1.01 / sqrt 5) = (1.01 :: real)"
    by (rule kontomaris_first_term(7))
  show "sphere_approx_kontomaris_default h [PyFloat 0.0] ''paraboloid'' 5.0 =
     (Inr [Fin (3 / 2 * sqrt 5 * (2 / 3 * 1.01 / sqrt 5))], [])"
    using kontomaris_first_term
    by (simp add: sphere_approx_kontomaris_default_def sphere_approx_kontomaris_def
        return_coefficients_def kontomaris_coeff_def kontomaris_model_factors_def upt_numerals
        bind_exn_def py_pow_ordinary py_pow_zero np_truediv_zero Let_def
        del: py_pow.simps np_truediv.simps(1) np_sqrt.simps(1) f64_mul.simps(1) f64_add.simps(1))
qed

text \<open>
  C9. The outcome of \<^verbatim>\<open>sphere_approx_kontomaris\<close> does not depend on its first
  argument, the sample height.
\<close>

theorem kontomaris_ignores_height:
  "sphere_approx_kontomaris h1 ind ind_shape R order =
   sphere_approx_kontomaris h2 ind ind_shape R order"
  by (simp add: sphere_approx_kontomaris_def)

text \<open>
  C10. With order 0, \<^verbatim>\<open>sphere_approx_kontomaris\<close> on the shape
  \<^verbatim>\<open>"paraboloid"\<close> returns \<open>0.0\<close> for every sample, which is not the neutral \<open>1.0\<close>:
  the accumulator starts at \<open>0.0\<close> and no term is added. \<^verbatim>\<open>bec_garcia_garcia\<close> with
  a supported shape and order 0 returns \<open>1.0\<close> for every sample.
\<close>

theorem order_zero:
  "sphere_approx_kontomaris h ind ''paraboloid'' R 0 = (Inr (replicate (length ind) (Fin 0)), []) \<and>
   Fin 0 \<noteq> Fin 1 \<and>
   (ind_shape \<in> {''paraboloid'', ''conical'', ''flat_punch''} \<longrightarrow>
      bec_garcia_garcia h ind ind_shape p 0 = (Inr (replicate (length ind) (Fin 1)), []))"
proof -
  have k: "kontomaris_coeff R 0 d = Inr (Fin 0)" for d
    by (simp add: kontomaris_coeff_def)
  have "map (coeff_or_one (kontomaris_coeff R 0)) ind = replicate (length ind) (Fin 0)"
    by (rule map_const) (simp add: coeff_or_one_def k)
  moreover have "raised (kontomaris_coeff R 0) ind = []"
    by (rule raised_none) (simp add: k)
  ultimately have kont: "sphere_approx_kontomaris h ind ''paraboloid'' R 0 =
      (Inr (replicate (length ind) (Fin 0)), [])"
    by (simp add: sphere_approx_kontomaris_def run_loop)
  have garcia: "bec_garcia_garcia h ind ind_shape p 0 = (Inr (replicate (length ind) (Fin 1)), [])"
    if "ind_shape \<in> {''paraboloid'', ''conical'', ''flat_punch''}"
  proof -
    from that obtain tbl where tbl: "garcia_garcia_factors ind_shape = Some tbl" "length tbl = 4"
      by (rule garcia_supported)
    have "garcia_coeff tbl h p 0 d = Inr (Fin 1)" for d
      by (simp add: garcia_coeff_def)
    with tbl show ?thesis by (simp add: bec_garcia_garcia_loop loop_neutral)
  qed
  from kont garcia show ?thesis by simp
qed

theorem order_zero_witness:
  "''conical'' \<in> {''paraboloid'', ''conical'', ''flat_punch''} \<and>
   sphere_approx_kontomaris 2 [PyFloat 0.5, PyNone] ''paraboloid'' 5 0 = (Inr [Fin 0, Fin 0], []) \<and>
   bec_garcia_garcia 2 [PyFloat 0.5, PyNone] ''conical'' 1 0 = (Inr [Fin 1, Fin 1], [])"
  using order_zero [where h = 2 and ind = "[PyFloat 0.5, PyNone]" and R = 5
      and ind_shape = "''conical''" and p = 1]
  by (simp add: numeral_2_eq_2)

end
